theory Spec2Isabelle
  imports Complex_Main
begin

section \<open>Board outline generator: data model\<close>

text \<open>
  The plugin computes in Python floats (millimetres) and hands integer nanometres to the
  host. Floats are idealised as real numbers here: rounding, infinities and NaN are outside
  the model. The conversion to integers, which the source writes out as
  \<^verbatim>\<open>int(mm * 1e6)\<close>, is part of the model.
\<close>

definition BOARD_OFFSET_X :: real where
  "BOARD_OFFSET_X = 25"

definition BOARD_OFFSET_Y :: real where
  "BOARD_OFFSET_Y = 25"

text \<open>Python's \<^verbatim>\<open>int\<close> of a float truncates toward zero.\<close>

definition mm_to_nm :: "real \<Rightarrow> int" where
  "mm_to_nm mm = (let v = mm * 1000000 in if 0 \<le> v then \<lfloor>v\<rfloor> else \<lceil>v\<rceil>)"

type_synonym vector2i = "int \<times> int"

text \<open>\<^verbatim>\<open>pcbnew.VECTOR2I(mm_to_nm(p[0]), mm_to_nm(p[1]))\<close> for a point in millimetres.\<close>

definition VECTOR2I_mm :: "real \<times> real \<Rightarrow> vector2i" where
  "VECTOR2I_mm p = (mm_to_nm (fst p), mm_to_nm (snd p))"

text \<open>
  A \<^verbatim>\<open>PCB_SHAPE\<close> as the plugin fills it: the shape kind chosen by
  \<^verbatim>\<open>SetShape\<close> is the constructor, the arguments are the values given to
  \<^verbatim>\<open>SetLayer\<close>, \<^verbatim>\<open>SetStart\<close>/\<^verbatim>\<open>SetEnd\<close> or
  \<^verbatim>\<open>SetArcGeometry\<close> (start, mid, end), and \<^verbatim>\<open>SetWidth\<close>.
\<close>

datatype pcb_shape =
    SHAPE_T_SEGMENT int vector2i vector2i int
  | SHAPE_T_ARC int vector2i vector2i vector2i int

fun is_arc :: "pcb_shape \<Rightarrow> bool" where
  "is_arc (SHAPE_T_ARC l s m e w) = True"
| "is_arc (SHAPE_T_SEGMENT l s e w) = False"

fun is_segment :: "pcb_shape \<Rightarrow> bool" where
  "is_segment (SHAPE_T_SEGMENT l s e w) = True"
| "is_segment (SHAPE_T_ARC l s m e w) = False"

datatype pad_shape = PAD_SHAPE_CIRCLE | PAD_SHAPE_OTHER

datatype pad_attrib = PAD_ATTRIB_NPTH | PAD_ATTRIB_PTH

datatype pad_drill_shape = PAD_DRILL_SHAPE_CIRCLE | PAD_DRILL_SHAPE_OBLONG

text \<open>The fields of a \<^verbatim>\<open>PAD\<close> that \<^verbatim>\<open>create_mounting_hole\<close> sets, each holding the value
  passed to its setter.\<close>

record pad =
  pad_number :: string
  pad_shape :: pad_shape
  pad_attribute :: pad_attrib
  pad_drill_shape :: pad_drill_shape
  pad_drill_size :: vector2i
  pad_size :: vector2i
  pad_position :: vector2i
  pad_local_solder_mask_margin :: int

record footprint =
  fp_reference :: string
  fp_value :: string
  fp_pads :: "pad list"
  fp_position :: vector2i

text \<open>
  The host's board document, as far as the plugin touches it: the layer registry read by
  \<^verbatim>\<open>GetLayerID\<close>, and the drawings and footprints that \<^verbatim>\<open>board.Add\<close> appends to.
\<close>

record pcb_board =
  GetLayerID :: "string \<Rightarrow> int"
  drawings :: "pcb_shape list"
  footprints :: "footprint list"

definition Add_shape :: "pcb_board \<Rightarrow> pcb_shape \<Rightarrow> pcb_board" where
  "Add_shape board s = board\<lparr>drawings := drawings board @ [s]\<rparr>"

definition Add_footprint :: "pcb_board \<Rightarrow> footprint \<Rightarrow> pcb_board" where
  "Add_footprint board f = board\<lparr>footprints := footprints board @ [f]\<rparr>"

section \<open>The outline\<close>

text \<open>The body of both \<^verbatim>\<open>for\<close> loops that add a straight line.\<close>

definition add_line :: "int \<Rightarrow> real \<times> real \<Rightarrow> real \<times> real \<Rightarrow> pcb_board \<Rightarrow> pcb_board" where
  "add_line edge_cuts start_mm end_mm board =
     Add_shape board
       (SHAPE_T_SEGMENT edge_cuts (VECTOR2I_mm start_mm) (VECTOR2I_mm end_mm) (mm_to_nm (1/10)))"

definition radians :: "real \<Rightarrow> real" where
  "radians deg = deg * pi / 180"

text \<open>The three points \<^verbatim>\<open>create_arc\<close> computes, in millimetres: start, mid, end.\<close>

definition arc_points ::
  "real \<Rightarrow> real \<times> real \<Rightarrow> real \<Rightarrow> real \<Rightarrow> (real \<times> real) \<times> (real \<times> real) \<times> (real \<times> real)" where
  "arc_points r center start_angle_deg end_angle_deg =
     (let cx = fst center; cy = snd center;
          start_angle = radians start_angle_deg;
          end_angle = radians end_angle_deg;
          mid_angle = (start_angle + end_angle) / 2;
          start_pt = (cx + r * cos start_angle, cy - r * sin start_angle);
          mid_pt = (cx + r * cos mid_angle, cy - r * sin mid_angle);
          end_pt = (cx + r * cos end_angle, cy - r * sin end_angle)
      in (start_pt, mid_pt, end_pt))"

text \<open>The nested \<^verbatim>\<open>create_arc\<close>; the radius, the layer and the board it closes over are
  arguments.\<close>

definition create_arc ::
  "int \<Rightarrow> real \<Rightarrow> real \<times> real \<Rightarrow> real \<Rightarrow> real \<Rightarrow> pcb_board \<Rightarrow> pcb_board" where
  "create_arc edge_cuts r center start_angle_deg end_angle_deg board =
     (case arc_points r center start_angle_deg end_angle_deg of
        (start_pt, mid_pt, end_pt) \<Rightarrow>
          Add_shape board
            (SHAPE_T_ARC edge_cuts (VECTOR2I_mm start_pt) (VECTOR2I_mm mid_pt)
               (VECTOR2I_mm end_pt) (mm_to_nm (1/10))))"

definition create_board_outline :: "pcb_board \<Rightarrow> real \<Rightarrow> real \<Rightarrow> real \<Rightarrow> pcb_board" where
  "create_board_outline board width height corner_radius =
     (let edge_cuts = GetLayerID board ''Edge.Cuts'';
          ox = BOARD_OFFSET_X;
          oy = BOARD_OFFSET_Y;
          r = corner_radius;
          w = width;
          h = height
      in if r = 0 then
           (let points = [(ox, oy), (ox + w, oy), (ox + w, oy + h), (ox, oy + h), (ox, oy)]
            in fold (\<lambda>i. add_line edge_cuts (points ! i) (points ! (i + 1)))
                 [0 ..< length points - 1] board)
         else
           (let corners = [(ox + r, oy + r), (ox + w - r, oy + r),
                           (ox + w - r, oy + h - r), (ox + r, oy + h - r)];
                lines = [((ox + r, oy), (ox + w - r, oy)),
                         ((ox + w, oy + r), (ox + w, oy + h - r)),
                         ((ox + w - r, oy + h), (ox + r, oy + h)),
                         ((ox, oy + h - r), (ox, oy + r))];
                board1 = fold (\<lambda>(start_mm, end_mm). add_line edge_cuts start_mm end_mm) lines board;
                board2 = create_arc edge_cuts r (corners ! 0) 90 180 board1;
                board3 = create_arc edge_cuts r (corners ! 1) 0 90 board2;
                board4 = create_arc edge_cuts r (corners ! 2) 270 360 board3
            in create_arc edge_cuts r (corners ! 3) 180 270 board4))"

section \<open>Mounting holes\<close>

fun digit_char :: "nat \<Rightarrow> char" where
  "digit_char n = char_of (48 + n)"

text \<open>Python's \<^verbatim>\<open>str\<close> of a non-negative integer, as the f-string of the reference uses it.\<close>

function str_nat :: "nat \<Rightarrow> string" where
  "str_nat n = (if n < 10 then [digit_char n] else str_nat (n div 10) @ [digit_char (n mod 10)])"
  by pat_completeness auto
termination
  by (relation "measure id") auto

definition startswith_H :: "string \<Rightarrow> bool" where
  "startswith_H s = (case s of [] \<Rightarrow> False | c # cs \<Rightarrow> c = CHR ''H'')"

definition mounting_hole_pad :: "real \<Rightarrow> real \<Rightarrow> pad" where
  "mounting_hole_pad hole_diameter annular_ring =
     \<lparr>pad_number = ''1'',
      pad_shape = PAD_SHAPE_CIRCLE,
      pad_attribute = PAD_ATTRIB_NPTH,
      pad_drill_shape = PAD_DRILL_SHAPE_CIRCLE,
      pad_drill_size = (mm_to_nm hole_diameter, mm_to_nm hole_diameter),
      pad_size = (mm_to_nm hole_diameter, mm_to_nm hole_diameter),
      pad_position = (0, 0),
      pad_local_solder_mask_margin = mm_to_nm annular_ring\<rparr>"

text \<open>The footprint \<^verbatim>\<open>create_mounting_hole\<close> builds and returns.\<close>

definition mounting_hole_footprint :: "pcb_board \<Rightarrow> real \<Rightarrow> real \<Rightarrow> real \<Rightarrow> real \<Rightarrow> footprint" where
  "mounting_hole_footprint board x y hole_diameter annular_ring =
     (let pad_diameter = hole_diameter + (2 * annular_ring);
          reference = ''H'' @ str_nat (length (filter (\<lambda>f. startswith_H (fp_reference f))
                                                 (footprints board)) + 1);
          pad = mounting_hole_pad hole_diameter annular_ring;
          sheet_x = BOARD_OFFSET_X + x;
          sheet_y = BOARD_OFFSET_Y + y
      in \<lparr>fp_reference = reference,
          fp_value = ''MountingHole'',
          fp_pads = [pad],
          fp_position = (mm_to_nm sheet_x, mm_to_nm sheet_y)\<rparr>)"

text \<open>The board after \<^verbatim>\<open>create_mounting_hole\<close>; its caller drops the returned footprint.\<close>

definition create_mounting_hole :: "pcb_board \<Rightarrow> real \<Rightarrow> real \<Rightarrow> real \<Rightarrow> real \<Rightarrow> pcb_board" where
  "create_mounting_hole board x y hole_diameter annular_ring =
     Add_footprint board (mounting_hole_footprint board x y hole_diameter annular_ring)"

section \<open>The dialog and its validation\<close>

text \<open>
  A text control is modelled by what \<^verbatim>\<open>float(ctrl.GetValue())\<close> makes of its content:
  \<open>Some v\<close> when the text is the number \<open>v\<close>, \<open>None\<close> when \<^verbatim>\<open>float\<close> raises
  \<^verbatim>\<open>ValueError\<close>.
\<close>

type_synonym text_ctrl = "real option"

text \<open>One constructor for each place a \<^verbatim>\<open>ValueError\<close> is raised.\<close>

datatype value_error =
    Not_A_Float
  | Invalid_Position nat
  | Dimensions_Not_Positive
  | Radius_Negative
  | Radius_Too_Large
  | Hole_Diameter_Not_Positive

definition py_float :: "text_ctrl \<Rightarrow> value_error + real" where
  "py_float t = (case t of None \<Rightarrow> Inl Not_A_Float | Some v \<Rightarrow> Inr v)"

record mounting_hole_entry =
  index :: nat
  x_ctrl :: text_ctrl
  y_ctrl :: text_ctrl

definition get_position :: "mounting_hole_entry \<Rightarrow> (real \<times> real) option" where
  "get_position entry =
     (case py_float (x_ctrl entry) of
        Inl e \<Rightarrow> None
      | Inr x \<Rightarrow> (case py_float (y_ctrl entry) of
                   Inl e \<Rightarrow> None
                 | Inr y \<Rightarrow> Some (x, y)))"

record dialog =
  width_ctrl :: text_ctrl
  height_ctrl :: text_ctrl
  radius_ctrl :: text_ctrl
  hole_diameter_ctrl :: text_ctrl
  annular_ring_ctrl :: text_ctrl
  hole_entries :: "mounting_hole_entry list"

record params =
  width :: real
  height :: real
  corner_radius :: real
  hole_diameter :: real
  annular_ring :: real
  hole_positions :: "(real \<times> real) list"

text \<open>The loop over \<^verbatim>\<open>self.hole_entries\<close>, appending to \<^verbatim>\<open>params['hole_positions']\<close>.\<close>

fun collect_positions ::
  "mounting_hole_entry list \<Rightarrow> (real \<times> real) list \<Rightarrow> value_error + (real \<times> real) list" where
  "collect_positions [] acc = Inr acc"
| "collect_positions (entry # entries) acc =
     (case get_position entry of
        None \<Rightarrow> Inl (Invalid_Position (index entry + 1))
      | Some pos \<Rightarrow> collect_positions entries (acc @ [pos]))"

definition validate :: "params \<Rightarrow> value_error + params" where
  "validate p =
     (if width p \<le> 0 \<or> height p \<le> 0 then Inl Dimensions_Not_Positive
      else if corner_radius p < 0 then Inl Radius_Negative
      else if corner_radius p > min (width p) (height p) / 2 then Inl Radius_Too_Large
      else if hole_diameter p \<le> 0 then Inl Hole_Diameter_Not_Positive
      else Inr p)"

text \<open>The body of the \<^verbatim>\<open>try\<close> block of \<^verbatim>\<open>get_parameters\<close>.\<close>

definition get_parameters_try :: "dialog \<Rightarrow> value_error + params" where
  "get_parameters_try dlg =
     (case py_float (width_ctrl dlg) of Inl e \<Rightarrow> Inl e | Inr w \<Rightarrow>
     (case py_float (height_ctrl dlg) of Inl e \<Rightarrow> Inl e | Inr h \<Rightarrow>
     (case py_float (radius_ctrl dlg) of Inl e \<Rightarrow> Inl e | Inr r \<Rightarrow>
     (case py_float (hole_diameter_ctrl dlg) of Inl e \<Rightarrow> Inl e | Inr d \<Rightarrow>
     (case py_float (annular_ring_ctrl dlg) of Inl e \<Rightarrow> Inl e | Inr a \<Rightarrow>
     (case collect_positions (hole_entries dlg) [] of Inl e \<Rightarrow> Inl e | Inr ps \<Rightarrow>
        validate \<lparr>width = w, height = h, corner_radius = r, hole_diameter = d,
                  annular_ring = a, hole_positions = ps\<rparr>))))))"

text \<open>The \<^verbatim>\<open>except ValueError\<close> clause shows a message box and returns \<^verbatim>\<open>None\<close>.\<close>

definition get_parameters :: "dialog \<Rightarrow> params option" where
  "get_parameters dlg = (case get_parameters_try dlg of Inl e \<Rightarrow> None | Inr p \<Rightarrow> Some p)"

section \<open>The plugin's entry point\<close>

datatype modal_result = ID_OK | ID_CANCEL

text \<open>
  \<^verbatim>\<open>Run\<close>, given what \<^verbatim>\<open>ShowModal\<close> returned and the dialog as the user left it. The view
  refresh and the message boxes do not touch the board document and are left out.
\<close>

definition Run :: "modal_result \<Rightarrow> dialog \<Rightarrow> pcb_board \<Rightarrow> pcb_board" where
  "Run modal dlg board =
     (if modal = ID_OK then
        (case get_parameters dlg of
           None \<Rightarrow> board
         | Some p \<Rightarrow>
             fold (\<lambda>(x, y) b. create_mounting_hole b x y (hole_diameter p) (annular_ring p))
               (hole_positions p)
               (create_board_outline board (width p) (height p) (corner_radius p)))
      else board)"

section \<open>Reading the result\<close>

text \<open>The drawings and the footprints a call appended to the board it was given.\<close>

definition emitted :: "pcb_board \<Rightarrow> pcb_board \<Rightarrow> pcb_shape list" where
  "emitted before after = drop (length (drawings before)) (drawings after)"


text \<open>
  The specification's arc, in its words: the point at angle \<open>deg\<close> on the circle of radius
  \<open>r\<close> about \<open>c\<close>, the angle counted counterclockwise and the vertical component negated;
  and the arc from \<open>a\<close> to \<open>b\<close> degrees given by its start, its angular midpoint and its end.
\<close>

definition point_at :: "real \<times> real \<Rightarrow> real \<Rightarrow> real \<Rightarrow> real \<times> real" where
  "point_at c r deg = (fst c + r * cos (radians deg), snd c - r * sin (radians deg))"

definition quarter_arc :: "int \<Rightarrow> real \<times> real \<Rightarrow> real \<Rightarrow> real \<Rightarrow> real \<Rightarrow> pcb_shape" where
  "quarter_arc lay c r a b =
     SHAPE_T_ARC lay (VECTOR2I_mm (point_at c r a)) (VECTOR2I_mm (point_at c r ((a + b) / 2)))
       (VECTOR2I_mm (point_at c r b)) (mm_to_nm (1/10))"





text \<open>The end points of the straight edges and of the arcs among some shapes, in order.\<close>

fun shape_endpoints :: "pcb_shape \<Rightarrow> vector2i list" where
  "shape_endpoints (SHAPE_T_SEGMENT l s e w) = [s, e]"
| "shape_endpoints (SHAPE_T_ARC l s m e w) = [s, e]"

definition edge_endpoints :: "pcb_shape list \<Rightarrow> vector2i list" where
  "edge_endpoints shapes = concat (map shape_endpoints (filter is_segment shapes))"

definition arc_endpoints :: "pcb_shape list \<Rightarrow> vector2i list" where
  "arc_endpoints shapes = concat (map shape_endpoints (filter is_arc shapes))"




section \<open>Concrete inputs\<close>

text \<open>A board without drawings or footprints.\<close>

definition blank_board :: pcb_board where
  "blank_board = \<lparr>GetLayerID = (\<lambda>name. if name = ''Edge.Cuts'' then 25 else 0),
                  drawings = [], footprints = []\<rparr>"

text \<open>The dialog as \<^verbatim>\<open>_build_ui\<close> fills it: 100 by 80, radius 3, hole 3.4, ring 1.0, no holes.\<close>

definition default_dialog :: dialog where
  "default_dialog =
     \<lparr>width_ctrl = Some 100, height_ctrl = Some 80, radius_ctrl = Some 3,
      hole_diameter_ctrl = Some (34/10), annular_ring_ctrl = Some 1, hole_entries = []\<rparr>"


section \<open>Helper facts\<close>

subsection \<open>What the outline appends\<close>

lemma drawings_add_line:
  "drawings (add_line ec p q b) =
     drawings b @ [SHAPE_T_SEGMENT ec (VECTOR2I_mm p) (VECTOR2I_mm q) (mm_to_nm (1/10))]"
  by (simp add: add_line_def Add_shape_def)

lemma drawings_create_arc:
  "drawings (create_arc ec r c a e b) =
     drawings b @ [SHAPE_T_ARC ec (VECTOR2I_mm (fst (arc_points r c a e)))
                     (VECTOR2I_mm (fst (snd (arc_points r c a e))))
                     (VECTOR2I_mm (snd (snd (arc_points r c a e)))) (mm_to_nm (1/10))]"
  by (simp add: create_arc_def Add_shape_def split: prod.split)



lemma arc_points_point_at:
  "arc_points r c a e = (point_at c r a, point_at c r ((a + e) / 2), point_at c r e)"
proof -
  have "(radians a + radians e) / 2 = radians ((a + e) / 2)"
    by (simp add: radians_def field_simps)
  then show ?thesis
    by (simp add: arc_points_def point_at_def Let_def)
qed

lemma rounded_drawings:
  "r \<noteq> 0 \<Longrightarrow> drawings (create_board_outline b w h r) =
     drawings b @
       [SHAPE_T_SEGMENT (GetLayerID b ''Edge.Cuts'')
          (VECTOR2I_mm (BOARD_OFFSET_X + r, BOARD_OFFSET_Y))
          (VECTOR2I_mm (BOARD_OFFSET_X + w - r, BOARD_OFFSET_Y)) (mm_to_nm (1/10)),
        SHAPE_T_SEGMENT (GetLayerID b ''Edge.Cuts'')
          (VECTOR2I_mm (BOARD_OFFSET_X + w, BOARD_OFFSET_Y + r))
          (VECTOR2I_mm (BOARD_OFFSET_X + w, BOARD_OFFSET_Y + h - r)) (mm_to_nm (1/10)),
        SHAPE_T_SEGMENT (GetLayerID b ''Edge.Cuts'')
          (VECTOR2I_mm (BOARD_OFFSET_X + w - r, BOARD_OFFSET_Y + h))
          (VECTOR2I_mm (BOARD_OFFSET_X + r, BOARD_OFFSET_Y + h)) (mm_to_nm (1/10)),
        SHAPE_T_SEGMENT (GetLayerID b ''Edge.Cuts'')
          (VECTOR2I_mm (BOARD_OFFSET_X, BOARD_OFFSET_Y + h - r))
          (VECTOR2I_mm (BOARD_OFFSET_X, BOARD_OFFSET_Y + r)) (mm_to_nm (1/10)),
        quarter_arc (GetLayerID b ''Edge.Cuts'') (BOARD_OFFSET_X + r, BOARD_OFFSET_Y + r) r 90 180,
        quarter_arc (GetLayerID b ''Edge.Cuts'') (BOARD_OFFSET_X + w - r, BOARD_OFFSET_Y + r) r 0 90,
        quarter_arc (GetLayerID b ''Edge.Cuts'') (BOARD_OFFSET_X + w - r, BOARD_OFFSET_Y + h - r) r 270 360,
        quarter_arc (GetLayerID b ''Edge.Cuts'') (BOARD_OFFSET_X + r, BOARD_OFFSET_Y + h - r) r 180 270]"
  by (simp add: create_board_outline_def Let_def drawings_add_line drawings_create_arc
      arc_points_point_at quarter_arc_def add_line_def create_arc_def Add_shape_def)


lemma mm_to_nm_numeral [simp]: "mm_to_nm (numeral k) = numeral k * 1000000"
proof -
  have "\<lfloor>(numeral k :: real) * 1000000\<rfloor> = \<lfloor>of_int (numeral k * 1000000) :: real\<rfloor>" by simp
  then show ?thesis unfolding mm_to_nm_def Let_def by (simp del: of_int_mult of_int_numeral)
qed

lemma mm_to_nm_tenth: "mm_to_nm (1/10) = 100000"
  by (simp add: mm_to_nm_def)

lemma mm_to_nm_floor: "0 \<le> x \<Longrightarrow> mm_to_nm x = \<lfloor>x * 1000000\<rfloor>"
  by (simp add: mm_to_nm_def)

lemma mm_to_nm_strict:
  assumes "0 \<le> x" and "x + 1 / 1000000 \<le> y"
  shows "mm_to_nm x < mm_to_nm y"
proof -
  have "\<lfloor>x * 1000000\<rfloor> + 1 = \<lfloor>x * 1000000 + 1\<rfloor>" by simp
  also have "\<dots> \<le> \<lfloor>y * 1000000\<rfloor>"
    using assms by (intro floor_mono) (simp add: field_simps)
  finally show ?thesis using assms by (simp add: mm_to_nm_floor)
qed




subsection \<open>Angles\<close>

lemma three_quarter_turn: "cos (3 * pi / 2) = 0" "sin (3 * pi / 2) = - 1"
  using cos_3over2_pi sin_3over2_pi by simp_all

lemma point_at_quadrants:
  "point_at (cx, cy) r 0 = (cx + r, cy)"
  "point_at (cx, cy) r 90 = (cx, cy - r)"
  "point_at (cx, cy) r 180 = (cx - r, cy)"
  "point_at (cx, cy) r 270 = (cx, cy + r)"
  "point_at (cx, cy) r 360 = (cx + r, cy)"
  by (simp_all add: point_at_def radians_def three_quarter_turn)






lemma rounded_edge_endpoints:
  "r \<noteq> 0 \<Longrightarrow> edge_endpoints (emitted b (create_board_outline b w h r)) =
     [(mm_to_nm (BOARD_OFFSET_X + r), mm_to_nm BOARD_OFFSET_Y),
      (mm_to_nm (BOARD_OFFSET_X + w - r), mm_to_nm BOARD_OFFSET_Y),
      (mm_to_nm (BOARD_OFFSET_X + w), mm_to_nm (BOARD_OFFSET_Y + r)),
      (mm_to_nm (BOARD_OFFSET_X + w), mm_to_nm (BOARD_OFFSET_Y + h - r)),
      (mm_to_nm (BOARD_OFFSET_X + w - r), mm_to_nm (BOARD_OFFSET_Y + h)),
      (mm_to_nm (BOARD_OFFSET_X + r), mm_to_nm (BOARD_OFFSET_Y + h)),
      (mm_to_nm BOARD_OFFSET_X, mm_to_nm (BOARD_OFFSET_Y + h - r)),
      (mm_to_nm BOARD_OFFSET_X, mm_to_nm (BOARD_OFFSET_Y + r))]"
  by (simp add: edge_endpoints_def emitted_def rounded_drawings quarter_arc_def VECTOR2I_mm_def)

lemma rounded_arc_endpoints:
  "r \<noteq> 0 \<Longrightarrow> arc_endpoints (emitted b (create_board_outline b w h r)) =
     [(mm_to_nm (BOARD_OFFSET_X + r), mm_to_nm BOARD_OFFSET_Y),
      (mm_to_nm BOARD_OFFSET_X, mm_to_nm (BOARD_OFFSET_Y + r)),
      (mm_to_nm (BOARD_OFFSET_X + w), mm_to_nm (BOARD_OFFSET_Y + r)),
      (mm_to_nm (BOARD_OFFSET_X + w - r), mm_to_nm BOARD_OFFSET_Y),
      (mm_to_nm (BOARD_OFFSET_X + w - r), mm_to_nm (BOARD_OFFSET_Y + h)),
      (mm_to_nm (BOARD_OFFSET_X + w), mm_to_nm (BOARD_OFFSET_Y + h - r)),
      (mm_to_nm BOARD_OFFSET_X, mm_to_nm (BOARD_OFFSET_Y + h - r)),
      (mm_to_nm (BOARD_OFFSET_X + r), mm_to_nm (BOARD_OFFSET_Y + h))]"
  by (simp add: arc_endpoints_def emitted_def rounded_drawings quarter_arc_def VECTOR2I_mm_def
      point_at_quadrants)

lemma ring_distinct:
  fixes x0 x1 x2 x3 y0 y1 y2 y3 :: int
  assumes "x0 < x1" "x1 < x2" "x2 < x3" "y0 < y1" "y1 < y2" "y2 < y3"
  shows "distinct [(x1, y0), (x2, y0), (x3, y1), (x3, y2), (x2, y3), (x1, y3), (x0, y2), (x0, y1)]"
    and "list_all (\<lambda>p. count_list
            [(x1, y0), (x0, y1), (x3, y1), (x2, y0), (x2, y3), (x3, y2), (x0, y2), (x1, y3)] p = 1)
          [(x1, y0), (x2, y0), (x3, y1), (x3, y2), (x2, y3), (x1, y3), (x0, y2), (x0, y1)]"
  using assms by auto

subsection \<open>A radius below the resolution\<close>





subsection \<open>Validation and the holes\<close>






section \<open>The plain rectangle\<close>



section \<open>The rounded outline\<close>



text \<open>
  Claim C2. For a corner arc with centre \<open>(cx, cy)\<close>, radius \<open>r\<close> and angles in degrees, each
  of the three points (start, angular midpoint \<open>(start_angle + end_angle) / 2\<close>, end) at
  angle \<open>a\<close> is \<open>(cx + r * cos a, cy - r * sin a)\<close>: counterclockwise angle, vertical component
  negated. \<^verbatim>\<open>create_arc\<close> adds the arc through these points, converted to nanometres.
\<close>

theorem arc_points_formula:
  "arc_points r (cx, cy) start_angle end_angle =
     ((cx + r * cos (radians start_angle), cy - r * sin (radians start_angle)),
      (cx + r * cos (radians ((start_angle + end_angle) / 2)),
       cy - r * sin (radians ((start_angle + end_angle) / 2))),
      (cx + r * cos (radians end_angle), cy - r * sin (radians end_angle)))
   \<and> emitted b (create_arc lay r (cx, cy) start_angle end_angle b) =
     [SHAPE_T_ARC lay
        (mm_to_nm (cx + r * cos (radians start_angle)), mm_to_nm (cy - r * sin (radians start_angle)))
        (mm_to_nm (cx + r * cos (radians ((start_angle + end_angle) / 2))),
         mm_to_nm (cy - r * sin (radians ((start_angle + end_angle) / 2))))
        (mm_to_nm (cx + r * cos (radians end_angle)), mm_to_nm (cy - r * sin (radians end_angle)))
        (mm_to_nm (1/10))]"
  by (simp add: arc_points_point_at point_at_def emitted_def drawings_create_arc VECTOR2I_mm_def)

theorem arc_points_formula_witness:
  "arc_points 3 (28, 28) 90 180 =
     ((28, 25), (28 + 3 * cos (radians 135), 28 - 3 * sin (radians 135)), (25, 28))
   \<and> emitted blank_board (create_arc 25 3 (28, 28) 90 180 blank_board) =
     [SHAPE_T_ARC 25 (28000000, 25000000)
        (mm_to_nm (28 + 3 * cos (radians 135)), mm_to_nm (28 - 3 * sin (radians 135)))
        (25000000, 28000000) 100000]"
proof -
  have q: "cos (radians 90) = 0" "sin (radians 90) = 1" "cos (radians 180) = - 1"
      "sin (radians 180) = 0" "((90::real) + 180) / 2 = 135"
    by (simp_all add: radians_def)
  show ?thesis
    using arc_points_formula [of 3 28 28 90 180 blank_board 25]
    by (simp only: q mm_to_nm_tenth) simp
qed



section \<open>Arcs and the nanometre grid\<close>




text \<open>
  Claim C10, as stated, fails: with \<open>w = h = 10\<close> and \<open>r = 5\<close>, which \<open>r \<le> min w h / 2\<close>
  allows, the top edge has length 0 and its end point \<open>(30000000, 25000000)\<close> is an end point of
  two arcs, the top-left and the top-right one.
\<close>

theorem full_radius_shared_endpoint_counterexample:
  "(0::real) < 5 \<and> (5::real) \<le> min 10 10 / 2
   \<and> edge_endpoints (emitted blank_board (create_board_outline blank_board 10 10 5)) ! 0 =
       (30000000, 25000000)
   \<and> count_list (arc_endpoints (emitted blank_board (create_board_outline blank_board 10 10 5)))
       (30000000, 25000000) = 2"
  by (simp add: rounded_edge_endpoints rounded_arc_endpoints BOARD_OFFSET_X_def BOARD_OFFSET_Y_def)

text \<open>
  Claim C10, amended. For \<open>0 < r \<le> min w h / 2\<close>, under exact real arithmetic, the start and
  the end of each arc are end points of its two neighbouring straight edges (the eight arc end
  points are the eight edge end points in another order), so the eight shapes close up into one
  outline. When moreover \<open>r\<close>, \<open>w - 2 * r\<close> and \<open>h - 2 * r\<close> are each at least one nanometre
  (\<open>1 / 1000000\<close> mm), the eight edge end points are pairwise distinct and each of them is the
  end point of exactly one arc.
\<close>

theorem outline_closed:
  assumes "0 < r" and "r \<le> min w h / 2"
  shows "edge_endpoints (emitted b (create_board_outline b w h r)) =
     [(mm_to_nm (BOARD_OFFSET_X + r), mm_to_nm BOARD_OFFSET_Y),
      (mm_to_nm (BOARD_OFFSET_X + w - r), mm_to_nm BOARD_OFFSET_Y),
      (mm_to_nm (BOARD_OFFSET_X + w), mm_to_nm (BOARD_OFFSET_Y + r)),
      (mm_to_nm (BOARD_OFFSET_X + w), mm_to_nm (BOARD_OFFSET_Y + h - r)),
      (mm_to_nm (BOARD_OFFSET_X + w - r), mm_to_nm (BOARD_OFFSET_Y + h)),
      (mm_to_nm (BOARD_OFFSET_X + r), mm_to_nm (BOARD_OFFSET_Y + h)),
      (mm_to_nm BOARD_OFFSET_X, mm_to_nm (BOARD_OFFSET_Y + h - r)),
      (mm_to_nm BOARD_OFFSET_X, mm_to_nm (BOARD_OFFSET_Y + r))]
   \<and> arc_endpoints (emitted b (create_board_outline b w h r)) =
     [(mm_to_nm (BOARD_OFFSET_X + r), mm_to_nm BOARD_OFFSET_Y),
      (mm_to_nm BOARD_OFFSET_X, mm_to_nm (BOARD_OFFSET_Y + r)),
      (mm_to_nm (BOARD_OFFSET_X + w), mm_to_nm (BOARD_OFFSET_Y + r)),
      (mm_to_nm (BOARD_OFFSET_X + w - r), mm_to_nm BOARD_OFFSET_Y),
      (mm_to_nm (BOARD_OFFSET_X + w - r), mm_to_nm (BOARD_OFFSET_Y + h)),
      (mm_to_nm (BOARD_OFFSET_X + w), mm_to_nm (BOARD_OFFSET_Y + h - r)),
      (mm_to_nm BOARD_OFFSET_X, mm_to_nm (BOARD_OFFSET_Y + h - r)),
      (mm_to_nm (BOARD_OFFSET_X + r), mm_to_nm (BOARD_OFFSET_Y + h))]
   \<and> (1 / 1000000 \<le> r \<and> 1 / 1000000 \<le> w - 2 * r \<and> 1 / 1000000 \<le> h - 2 * r \<longrightarrow>
        distinct (edge_endpoints (emitted b (create_board_outline b w h r)))
        \<and> list_all (\<lambda>p. count_list (arc_endpoints (emitted b (create_board_outline b w h r))) p = 1)
            (edge_endpoints (emitted b (create_board_outline b w h r))))"
proof -
  from assms have nz: "r \<noteq> 0" by simp
  have "distinct (edge_endpoints (emitted b (create_board_outline b w h r)))
        \<and> list_all (\<lambda>p. count_list (arc_endpoints (emitted b (create_board_outline b w h r))) p = 1)
            (edge_endpoints (emitted b (create_board_outline b w h r)))"
    if res: "1 / 1000000 \<le> r" "1 / 1000000 \<le> w - 2 * r" "1 / 1000000 \<le> h - 2 * r"
  proof -
    have pos: "0 \<le> BOARD_OFFSET_X" "0 \<le> BOARD_OFFSET_Y"
      by (simp_all add: BOARD_OFFSET_X_def BOARD_OFFSET_Y_def)
    have x: "mm_to_nm BOARD_OFFSET_X < mm_to_nm (BOARD_OFFSET_X + r)"
        "mm_to_nm (BOARD_OFFSET_X + r) < mm_to_nm (BOARD_OFFSET_X + w - r)"
        "mm_to_nm (BOARD_OFFSET_X + w - r) < mm_to_nm (BOARD_OFFSET_X + w)"
    proof -
      show "mm_to_nm BOARD_OFFSET_X < mm_to_nm (BOARD_OFFSET_X + r)"
        by (rule mm_to_nm_strict) (use pos res in simp_all)
      show "mm_to_nm (BOARD_OFFSET_X + r) < mm_to_nm (BOARD_OFFSET_X + w - r)"
        by (rule mm_to_nm_strict) (use pos res assms in simp_all)
      show "mm_to_nm (BOARD_OFFSET_X + w - r) < mm_to_nm (BOARD_OFFSET_X + w)"
        by (rule mm_to_nm_strict) (use pos res assms in simp_all)
    qed
    have y: "mm_to_nm BOARD_OFFSET_Y < mm_to_nm (BOARD_OFFSET_Y + r)"
        "mm_to_nm (BOARD_OFFSET_Y + r) < mm_to_nm (BOARD_OFFSET_Y + h - r)"
        "mm_to_nm (BOARD_OFFSET_Y + h - r) < mm_to_nm (BOARD_OFFSET_Y + h)"
    proof -
      show "mm_to_nm BOARD_OFFSET_Y < mm_to_nm (BOARD_OFFSET_Y + r)"
        by (rule mm_to_nm_strict) (use pos res in simp_all)
      show "mm_to_nm (BOARD_OFFSET_Y + r) < mm_to_nm (BOARD_OFFSET_Y + h - r)"
        by (rule mm_to_nm_strict) (use pos res assms in simp_all)
      show "mm_to_nm (BOARD_OFFSET_Y + h - r) < mm_to_nm (BOARD_OFFSET_Y + h)"
        by (rule mm_to_nm_strict) (use pos res assms in simp_all)
    qed
    show ?thesis
      unfolding rounded_edge_endpoints [OF nz] rounded_arc_endpoints [OF nz]
      using ring_distinct [OF x y] by blast
  qed
  then show ?thesis
    using rounded_edge_endpoints [OF nz, of b w h] rounded_arc_endpoints [OF nz, of b w h]
    by blast
qed

theorem outline_closed_witness:
  "(0::real) < 3 \<and> (3::real) \<le> min 100 80 / 2
   \<and> (1 / 1000000 :: real) \<le> 3 \<and> (1 / 1000000 :: real) \<le> 100 - 2 * 3
   \<and> (1 / 1000000 :: real) \<le> 80 - 2 * 3
   \<and> edge_endpoints (emitted blank_board (create_board_outline blank_board 100 80 3)) =
       [(28000000, 25000000), (122000000, 25000000), (125000000, 28000000),
        (125000000, 102000000), (122000000, 105000000), (28000000, 105000000),
        (25000000, 102000000), (25000000, 28000000)]
   \<and> arc_endpoints (emitted blank_board (create_board_outline blank_board 100 80 3)) =
       [(28000000, 25000000), (25000000, 28000000), (125000000, 28000000),
        (122000000, 25000000), (122000000, 105000000), (125000000, 102000000),
        (25000000, 102000000), (28000000, 105000000)]
   \<and> distinct (edge_endpoints (emitted blank_board (create_board_outline blank_board 100 80 3)))
   \<and> list_all
        (\<lambda>p. count_list
           (arc_endpoints (emitted blank_board (create_board_outline blank_board 100 80 3))) p = 1)
        (edge_endpoints (emitted blank_board (create_board_outline blank_board 100 80 3)))"
proof -
  have h: "(0::real) < 3" "(3::real) \<le> min 100 80 / 2"
    by simp_all
  have res: "(1 / 1000000 :: real) \<le> 3 \<and> (1 / 1000000 :: real) \<le> 100 - 2 * 3
      \<and> (1 / 1000000 :: real) \<le> 80 - 2 * 3"
    by simp
  note t = outline_closed [OF h, of blank_board]
  from t have e: "edge_endpoints (emitted blank_board (create_board_outline blank_board 100 80 3)) =
       [(28000000, 25000000), (122000000, 25000000), (125000000, 28000000),
        (125000000, 102000000), (122000000, 105000000), (28000000, 105000000),
        (25000000, 102000000), (25000000, 28000000)]"
    by (simp add: BOARD_OFFSET_X_def BOARD_OFFSET_Y_def)
  from t have a: "arc_endpoints (emitted blank_board (create_board_outline blank_board 100 80 3)) =
       [(28000000, 25000000), (25000000, 28000000), (125000000, 28000000),
        (122000000, 25000000), (122000000, 105000000), (125000000, 102000000),
        (25000000, 102000000), (28000000, 105000000)]"
    by (simp add: BOARD_OFFSET_X_def BOARD_OFFSET_Y_def)
  from t res have d:
    "distinct (edge_endpoints (emitted blank_board (create_board_outline blank_board 100 80 3)))
     \<and> list_all
        (\<lambda>p. count_list
           (arc_endpoints (emitted blank_board (create_board_outline blank_board 100 80 3))) p = 1)
        (edge_endpoints (emitted blank_board (create_board_outline blank_board 100 80 3)))"
    by blast
  from h res e a d show ?thesis by blast
qed

section \<open>Validation\<close>




text \<open>
  Claim C7. When validation fails, that is when \<^verbatim>\<open>get_parameters\<close> yields no parameter
  set, \<^verbatim>\<open>Run\<close> leaves the board as it was: no outline shape and no footprint is added.
\<close>

theorem run_invalid_unchanged:
  assumes "get_parameters dlg = None"
  shows "Run modal dlg board = board"
  using assms by (simp add: Run_def)

theorem run_invalid_unchanged_witness:
  "get_parameters (default_dialog\<lparr>width_ctrl := Some 0\<rparr>) = None
   \<and> Run ID_OK (default_dialog\<lparr>width_ctrl := Some 0\<rparr>) blank_board = blank_board"
proof -
  have h: "get_parameters (default_dialog\<lparr>width_ctrl := Some 0\<rparr>) = None"
    by (simp add: default_dialog_def get_parameters_def get_parameters_try_def py_float_def
        validate_def)
  show ?thesis
    using h run_invalid_unchanged [OF h, of ID_OK blank_board] by simp
qed

section \<open>Mounting holes on the board\<close>



text \<open>
  Claim C9. For every hole diameter and annular ring, the pad's size equals its drill size,
  both the hole diameter; the annular ring is used for the local solder-mask margin only, and
  \<^verbatim>\<open>pad_diameter\<close> is not used: the pad and the footprint made with another annular ring
  differ in that margin and in nothing else.
\<close>

theorem annular_ring_only_mask_margin:
  "pad_size (mounting_hole_pad d a) = (mm_to_nm d, mm_to_nm d)
   \<and> pad_drill_size (mounting_hole_pad d a) = pad_size (mounting_hole_pad d a)
   \<and> mounting_hole_pad d a =
       (mounting_hole_pad d a')\<lparr>pad_local_solder_mask_margin := mm_to_nm a\<rparr>
   \<and> footprints (create_mounting_hole b x y d a) =
       footprints b @ [(mounting_hole_footprint b x y d a')
          \<lparr>fp_pads := [(mounting_hole_pad d a')\<lparr>pad_local_solder_mask_margin := mm_to_nm a\<rparr>]\<rparr>]"
  by (simp add: mounting_hole_pad_def create_mounting_hole_def Add_footprint_def mounting_hole_footprint_def Let_def)

theorem annular_ring_only_mask_margin_witness:
  "pad_size (mounting_hole_pad (34/10) 1) = (3400000, 3400000)
   \<and> pad_drill_size (mounting_hole_pad (34/10) 1) = (3400000, 3400000)
   \<and> mounting_hole_pad (34/10) 1 =
       (mounting_hole_pad (34/10) 2)\<lparr>pad_local_solder_mask_margin := 1000000\<rparr>"
proof -
  have t: "mm_to_nm (17/5) = 3400000" "mm_to_nm 1 = 1000000"
    by (simp_all add: mm_to_nm_def)
  show ?thesis
    using annular_ring_only_mask_margin [of "34/10" 1 2 blank_board 0 0]
    by (simp add: t mounting_hole_pad_def)
qed

end
